theory Spec2Isabelle
  imports Main "HOL-Library.Word"
begin

unbundle bit_operations_syntax

section \<open>EdDSA (Ed25519) adapter and key parsers of package jwt (eddsa.go)\<close>

text \<open>
  The file eddsa.go holds an algorithm adapter (\<open>Name\<close>, \<open>Sign\<close>, \<open>Verify\<close>), two PEM
  key parsers, and file loaders that read a file and call the parsers. Everything else it
  touches lives in Go's standard library: crypto/ed25519, encoding/pem and encoding/asn1.
  The embedding below translates the adapter and the two parsers line by line; the
  loaders add only the file read and are left out. The library enters in two layers:
  \<^item> what the library's Go code does around its mathematics (length checks that panic,
    fixed-size result buffers, slicing) is written out, because the behaviour of
    eddsa.go on malformed keys depends on it;
  \<^item> the mathematics itself (curve arithmetic and hashing) and the two decoders are
    parameters of the model, so every theorem holds for any implementation of them.
\<close>

subsection \<open>Bytes, panics, errors\<close>

type_synonym byte = "8 word"
type_synonym bytes = "byte list"

text \<open>A Go function either returns or panics; a panic is not an error value.\<close>

datatype panic =
    SliceBoundsOutOfRange nat nat  \<comment> \<open>\<open>s[lo:]\<close> with \<open>lo > len(s)\<close>: the bound and the length\<close>
  | BadSeedLength nat              \<comment> \<open>"ed25519: bad seed length: n"\<close>
  | BadPrivateKeyLength nat        \<comment> \<open>"ed25519: bad private key length: n"\<close>
  | BadPublicKeyLength nat         \<comment> \<open>"ed25519: bad public key length: n"\<close>

datatype 'a go = Returns 'a | Panics panic

text \<open>
  Modelled from the spec: the sentinels \<open>ErrInvalidKey\<close> and \<open>ErrTokenSignature\<close> are
  declared in another file of the package; the spec describes them as "a distinguished
  invalid key sentinel and a distinguished signature mismatch sentinel, returned by
  identity". The other constructors are the remaining Go \<open>error\<close> values that eddsa.go
  can return: \<open>Errorf\<close> is the value of \<open>fmt.Errorf\<close> on a format string without verbs;
  \<open>SyntaxError\<close> and \<open>StructuralError\<close> are the error types of encoding/asn1, each
  with its message.
\<close>

datatype error =
    ErrInvalidKey
  | ErrTokenSignature
  | Errorf string
  | SyntaxError string
  | StructuralError string

subsection \<open>Go built-ins used by the library code\<close>

definition make_bytes :: "nat \<Rightarrow> bytes" where
  \<comment> \<open>\<open>make([]byte, n)\<close>: n zero bytes\<close>
  "make_bytes n = replicate n 0"

definition copy :: "bytes \<Rightarrow> bytes \<Rightarrow> bytes" where
  \<comment> \<open>\<open>copy(dst, src)\<close>: the first \<open>min(len(dst), len(src))\<close> bytes of dst are overwritten;
      the value is dst afterwards\<close>
  "copy dst src = take (length dst) src @ drop (length src) dst"

definition slice_from :: "bytes \<Rightarrow> nat \<Rightarrow> bytes go" where
  \<comment> \<open>\<open>s[lo:]\<close>\<close>
  "slice_from s lo =
     (if lo > length s then Panics (SliceBoundsOutOfRange lo (length s))
      else Returns (drop lo s))"

subsection \<open>crypto/ed25519\<close>

definition PublicKeySize :: nat where "PublicKeySize = 32"
definition PrivateKeySize :: nat where "PrivateKeySize = 64"
definition SignatureSize :: nat where "SignatureSize = 64"
definition SeedSize :: nat where "SeedSize = 32"

text \<open>
  The mathematics of Ed25519, a parameter of the model: \<open>public_of_seed\<close> is the encoded
  curve point of a seed, \<open>sign_raw\<close> the signature bytes of a private key and a message,
  \<open>verify_raw\<close> the verification equation on a 32-byte public key. They are functions: the
  library documents \<open>ed25519.Sign\<close> as deterministic and takes no source of randomness.
\<close>

record ed25519 =
  public_of_seed :: "bytes \<Rightarrow> bytes"
  sign_raw :: "bytes \<Rightarrow> bytes \<Rightarrow> bytes"
  verify_raw :: "bytes \<Rightarrow> bytes \<Rightarrow> bytes \<Rightarrow> bool"

definition ed25519_NewKeyFromSeed :: "ed25519 \<Rightarrow> bytes \<Rightarrow> bytes go" where
  \<comment> \<open>panics unless \<open>len(seed) == SeedSize\<close>; the key is a 64-byte buffer holding the seed and
      then the public key\<close>
  "ed25519_NewKeyFromSeed E seed =
     (if length seed \<noteq> SeedSize then Panics (BadSeedLength (length seed))
      else Returns (copy (make_bytes SeedSize) seed @ copy (make_bytes PublicKeySize) (public_of_seed E seed)))"

definition PrivateKey_Public :: "bytes \<Rightarrow> bytes go" where
  \<comment> \<open>\<open>priv.Public()\<close>: \<open>publicKey := make([]byte, PublicKeySize); copy(publicKey, priv[32:])\<close>\<close>
  "PrivateKey_Public priv =
     (case slice_from priv 32 of
        Panics p \<Rightarrow> Panics p
      | Returns tail \<Rightarrow> Returns (copy (make_bytes PublicKeySize) tail))"

definition ed25519_Sign :: "ed25519 \<Rightarrow> bytes \<Rightarrow> bytes \<Rightarrow> bytes go" where
  \<comment> \<open>panics unless \<open>len(privateKey) == PrivateKeySize\<close>; the signature is written into
      \<open>make([]byte, SignatureSize)\<close>\<close>
  "ed25519_Sign E privateKey message =
     (if length privateKey \<noteq> PrivateKeySize then Panics (BadPrivateKeyLength (length privateKey))
      else Returns (copy (make_bytes SignatureSize) (sign_raw E privateKey message)))"

definition ed25519_Verify :: "ed25519 \<Rightarrow> bytes \<Rightarrow> bytes \<Rightarrow> bytes \<Rightarrow> bool go" where
  \<comment> \<open>panics unless \<open>len(publicKey) == PublicKeySize\<close>\<close>
  "ed25519_Verify E publicKey message sig =
     (if length publicKey \<noteq> PublicKeySize then Panics (BadPublicKeyLength (length publicKey))
      else Returns (verify_raw E publicKey message sig))"

subsection \<open>The algorithm adapter\<close>

text \<open>
  \<open>PrivateKey\<close> and \<open>PublicKey\<close> of package jwt are empty interfaces: a key is a value
  with a dynamic type, which \<open>Sign\<close> and \<open>Verify\<close> inspect with type assertions.
\<close>

datatype key =
    Ed25519PrivateKey bytes   \<comment> \<open>dynamic type \<open>ed25519.PrivateKey\<close>\<close>
  | Ed25519PublicKey bytes    \<comment> \<open>dynamic type \<open>ed25519.PublicKey\<close>\<close>
  | ByteSlice bytes           \<comment> \<open>a plain \<open>[]byte\<close>, not tagged as a key\<close>
  | OtherValue                \<comment> \<open>nil, or a value of any other dynamic type\<close>

record algEdDSA =
  name :: string

definition Name :: "algEdDSA \<Rightarrow> string" where
  "Name a = name a"

fun Sign :: "algEdDSA \<Rightarrow> ed25519 \<Rightarrow> key \<Rightarrow> bytes \<Rightarrow> (error + bytes) go" where
  "Sign a E (Ed25519PrivateKey privateKey) headerAndPayload =
     (if length privateKey \<noteq> PrivateKeySize then Returns (Inl ErrInvalidKey)
      else (case ed25519_Sign E privateKey headerAndPayload of
              Panics p \<Rightarrow> Panics p
            | Returns sig \<Rightarrow> Returns (Inr sig)))"
| "Sign a E _ headerAndPayload = Returns (Inl ErrInvalidKey)"

definition Verify_publicKey :: "ed25519 \<Rightarrow> bytes \<Rightarrow> bytes \<Rightarrow> bytes \<Rightarrow> error option go" where
  \<comment> \<open>lines 41 to 49 of \<open>Verify\<close>, once \<open>publicKey\<close> is known; \<open>None\<close> is the nil error\<close>
  "Verify_publicKey E publicKey headerAndPayload signature =
     (if length publicKey \<noteq> PublicKeySize then Returns (Some ErrInvalidKey)
      else (case ed25519_Verify E publicKey headerAndPayload signature of
              Panics p \<Rightarrow> Panics p
            | Returns ok \<Rightarrow> if \<not> ok then Returns (Some ErrTokenSignature) else Returns None))"

fun Verify :: "algEdDSA \<Rightarrow> ed25519 \<Rightarrow> key \<Rightarrow> bytes \<Rightarrow> bytes \<Rightarrow> error option go" where
  "Verify a E (Ed25519PublicKey publicKey) headerAndPayload signature =
     Verify_publicKey E publicKey headerAndPayload signature"
| "Verify a E (Ed25519PrivateKey privateKey) headerAndPayload signature =
     (case PrivateKey_Public privateKey of
        Panics p \<Rightarrow> Panics p
      | Returns publicKey \<Rightarrow> Verify_publicKey E publicKey headerAndPayload signature)"
| "Verify a E _ headerAndPayload signature = Returns (Some ErrInvalidKey)"

subsection \<open>encoding/pem and encoding/asn1\<close>

record pem_Block =
  Block_Type :: string
  Block_Headers :: "(string \<times> string) list"
  Block_Bytes :: bytes

record BitString =
  BitString_Bytes :: bytes
  BitLength :: nat

text \<open>
  The anonymous inner struct of both key wrappers, with its single field; then the two
  wrappers that \<open>ParsePrivateKeyEdDSA\<close> and \<open>ParsePublicKeyEdDSA\<close> declare. The outer
  field that holds the inner struct has the prefix of its wrapper here, since a record
  field is a constant.
\<close>

record AlgorithmIdentifier =
  ObjectIdentifier :: "int list"

record asn1PrivKey =
  Version :: int
  priv_ObjectIdentifier :: AlgorithmIdentifier
  PrivateKey :: bytes

record asn1PubKey =
  pub_OBjectIdentifier :: AlgorithmIdentifier
  PublicKey :: BitString

text \<open>
  The decoders, parameters of the model. \<open>pem_Decode\<close> is \<open>pem.Decode\<close>: the first block
  found (or nil) and the rest of the input. \<open>asn1_Unmarshal_PrivKey\<close> and
  \<open>asn1_Unmarshal_PubKey\<close> are \<open>asn1.Unmarshal\<close> at the two wrapper types: an error, or the
  filled struct and the bytes left over. As total functions they do not panic.
\<close>

record encoding =
  pem_Decode :: "bytes \<Rightarrow> pem_Block option \<times> bytes"
  asn1_Unmarshal_PrivKey :: "bytes \<Rightarrow> error + asn1PrivKey \<times> bytes"
  asn1_Unmarshal_PubKey :: "bytes \<Rightarrow> error + asn1PubKey \<times> bytes"

subsection \<open>The key parsers\<close>

definition ParsePrivateKeyEdDSA :: "encoding \<Rightarrow> ed25519 \<Rightarrow> bytes \<Rightarrow> (error + bytes) go" where
  "ParsePrivateKeyEdDSA D E key =
     (case fst (pem_Decode D key) of
        None \<Rightarrow> Returns (Inl (Errorf ''private key: malformed or missing PEM format (EdDSA)''))
      | Some block \<Rightarrow>
          (case asn1_Unmarshal_PrivKey D (Block_Bytes block) of
             Inl err \<Rightarrow> Returns (Inl err)
           | Inr (asn1PrivKey, rest) \<Rightarrow>
               (case slice_from (PrivateKey asn1PrivKey) 2 of
                  Panics p \<Rightarrow> Panics p
                | Returns seed \<Rightarrow>
                    (case ed25519_NewKeyFromSeed E seed of
                       Panics p \<Rightarrow> Panics p
                     | Returns privateKey \<Rightarrow> Returns (Inr privateKey)))))"

definition ParsePublicKeyEdDSA :: "encoding \<Rightarrow> bytes \<Rightarrow> (error + bytes) go" where
  "ParsePublicKeyEdDSA D key =
     (case fst (pem_Decode D key) of
        None \<Rightarrow> Returns (Inl (Errorf ''public key: malformed or missing PEM format (EdDSA)''))
      | Some block \<Rightarrow>
          (case asn1_Unmarshal_PubKey D (Block_Bytes block) of
             Inl err \<Rightarrow> Returns (Inl err)
           | Inr (asn1PubKey, rest) \<Rightarrow> Returns (Inr (BitString_Bytes (PublicKey asn1PubKey)))))"


section \<open>Concrete instances of the parameters\<close>

text \<open>
  The theorems below hold for every Ed25519 primitive and every pair of decoders. To run
  the model on actual PEM text, this section gives one instance of each parameter. They
  are not translations of the library: \<open>encoding_ref\<close> reads only the canonical layout
  (one PEM block without headers, every line ended by a line feed; DER with one-byte tags
  and short-form lengths) and rejects the rest, and \<open>ed25519_toy\<close> is a keyed checksum
  that has the shape of a signature scheme and none of its security. On the inputs
  evaluated in this theory, \<open>encoding_ref\<close> returns what encoding/pem and encoding/asn1
  return.
\<close>

subsection \<open>PEM armour\<close>

definition bytes_of :: "string \<Rightarrow> bytes" where
  "bytes_of s = map of_char s"


definition base64_value :: "byte \<Rightarrow> nat option" where
  "base64_value c =
     (let n = unat c in
      if 65 \<le> n \<and> n \<le> 90 then Some (n - 65)
      else if 97 \<le> n \<and> n \<le> 122 then Some (n - 71)
      else if 48 \<le> n \<and> n \<le> 57 then Some (n + 4)
      else if n = 43 then Some 62
      else if n = 47 then Some 63
      else None)"

fun base64_quad :: "byte \<Rightarrow> byte \<Rightarrow> byte \<Rightarrow> byte \<Rightarrow> nat option" where
  "base64_quad a b c d =
     (case (base64_value a, base64_value b, base64_value c, base64_value d) of
        (Some x, Some y, Some z, Some w) \<Rightarrow> Some (((x * 64 + y) * 64 + z) * 64 + w)
      | _ \<Rightarrow> None)"

fun base64_decode :: "bytes \<Rightarrow> bytes option" where
  "base64_decode [] = Some []"
| "base64_decode [a, b, c, d] =
     (if c = 61 \<and> d = 61 then
        map_option (\<lambda>v. [of_nat (v div 65536)]) (base64_quad a b 65 65)
      else if d = 61 then
        map_option (\<lambda>v. [of_nat (v div 65536), of_nat (v div 256 mod 256)]) (base64_quad a b c 65)
      else
        map_option (\<lambda>v. [of_nat (v div 65536), of_nat (v div 256 mod 256), of_nat (v mod 256)])
          (base64_quad a b c d))"
| "base64_decode (a # b # c # d # rest) =
     (case (base64_quad a b c d, base64_decode rest) of
        (Some v, Some out) \<Rightarrow>
          Some (of_nat (v div 65536) # of_nat (v div 256 mod 256) # of_nat (v mod 256) # out)
      | _ \<Rightarrow> None)"
| "base64_decode _ = None"




fun strip_prefix :: "bytes \<Rightarrow> bytes \<Rightarrow> bytes option" where
  "strip_prefix [] ys = Some ys"
| "strip_prefix (x # xs) [] = None"
| "strip_prefix (x # xs) (y # ys) = (if x = y then strip_prefix xs ys else None)"

fun lines_of :: "bytes \<Rightarrow> bytes \<Rightarrow> bytes list option" where
  "lines_of cur [] = (if cur = [] then Some [] else None)"
| "lines_of cur (c # cs) =
     (if c = 10 then map_option ((#) (rev cur)) (lines_of [] cs) else lines_of (c # cur) cs)"

definition pem_Decode_ref :: "bytes \<Rightarrow> pem_Block option \<times> bytes" where
  "pem_Decode_ref data =
     (case lines_of [] data of
        Some (first # l # ls) \<Rightarrow>
          (case strip_prefix (bytes_of ''-----BEGIN '') first of
             Some rest \<Rightarrow>
               (let typ = take (length rest - 5) rest in
                if 5 \<le> length rest \<and> drop (length rest - 5) rest = bytes_of ''-----''
                   \<and> last (l # ls) = bytes_of ''-----END '' @ typ @ bytes_of ''-----''
                then (case base64_decode (concat (butlast (l # ls))) of
                        Some b \<Rightarrow>
                          (Some \<lparr>Block_Type = map (char_of \<circ> unat) typ, Block_Headers = [],
                                 Block_Bytes = b\<rparr>, [])
                      | None \<Rightarrow> (None, data))
                else (None, data))
           | None \<Rightarrow> (None, data))
      | _ \<Rightarrow> (None, data))"


subsection \<open>DER, for the two key wrappers\<close>

definition bind_err :: "error + 'a \<Rightarrow> ('a \<Rightarrow> error + 'b) \<Rightarrow> error + 'b" where
  "bind_err r f = (case r of Inl e \<Rightarrow> Inl e | Inr x \<Rightarrow> f x)"


definition outside_subset :: error where
  "outside_subset = StructuralError ''encoding outside the subset read here''"

definition der_expect :: "byte \<Rightarrow> bytes \<Rightarrow> error + bytes \<times> bytes" where
  "der_expect want bs =
     (case bs of
        [] \<Rightarrow> Inl (SyntaxError ''sequence truncated'')
      | [t] \<Rightarrow> if t AND 31 = 31 then Inl outside_subset
               else Inl (SyntaxError ''truncated tag or length'')
      | t # l # body \<Rightarrow>
          if t AND 31 = 31 \<or> l AND 128 \<noteq> 0 then Inl outside_subset
          else if t \<noteq> want then Inl (StructuralError ''tags do not match'')
          else if unat l > length body then Inl (SyntaxError ''data truncated'')
          else Inr (take (unat l) body, drop (unat l) body))"

definition der_int :: "bytes \<Rightarrow> error + int" where
  "der_int bs =
     (case bs of
        [] \<Rightarrow> Inl (StructuralError ''empty integer'')
      | [b] \<Rightarrow> Inr (sint b)
      | _ \<Rightarrow> Inl outside_subset)"

definition der_oid :: "bytes \<Rightarrow> error + int list" where
  "der_oid bs =
     (case bs of
        [] \<Rightarrow> Inl (SyntaxError ''zero length OBJECT IDENTIFIER'')
      | v # arcs \<Rightarrow>
          if \<exists>b \<in> set bs. b AND 128 \<noteq> 0 then Inl outside_subset
          else Inr ((if unat v < 80 then [int (unat v div 40), int (unat v mod 40)]
                     else [2, int (unat v - 80)]) @ map uint arcs))"

definition der_bitstring :: "bytes \<Rightarrow> error + BitString" where
  "der_bitstring bs =
     (case bs of
        [] \<Rightarrow> Inl (SyntaxError ''zero length BIT STRING'')
      | p # content \<Rightarrow>
          if unat p > 7 \<or> (length bs = 1 \<and> unat p > 0)
             \<or> last bs AND (push_bit (unat p) 1 - 1) \<noteq> 0
          then Inl (SyntaxError ''invalid padding bits in BIT STRING'')
          else Inr \<lparr>BitString_Bytes = content, BitLength = (length bs - 1) * 8 - unat p\<rparr>)"

definition der_algorithm :: "bytes \<Rightarrow> error + AlgorithmIdentifier \<times> bytes" where
  "der_algorithm bs =
     bind_err (der_expect 48 bs) (\<lambda>(inner, rest).
     bind_err (der_expect 6 inner) (\<lambda>(oid, _).
     bind_err (der_oid oid) (\<lambda>arcs.
     Inr (\<lparr>ObjectIdentifier = arcs\<rparr>, rest))))"

definition asn1_Unmarshal_PrivKey_ref :: "bytes \<Rightarrow> error + asn1PrivKey \<times> bytes" where
  "asn1_Unmarshal_PrivKey_ref b =
     bind_err (der_expect 48 b) (\<lambda>(inner, rest).
     bind_err (der_expect 2 inner) (\<lambda>(v, after_version).
     bind_err (der_int v) (\<lambda>version.
     bind_err (der_algorithm after_version) (\<lambda>(alg, after_alg).
     bind_err (der_expect 4 after_alg) (\<lambda>(k, _).
     Inr (\<lparr>Version = version, priv_ObjectIdentifier = alg, PrivateKey = k\<rparr>, rest))))))"

definition asn1_Unmarshal_PubKey_ref :: "bytes \<Rightarrow> error + asn1PubKey \<times> bytes" where
  "asn1_Unmarshal_PubKey_ref b =
     bind_err (der_expect 48 b) (\<lambda>(inner, rest).
     bind_err (der_algorithm inner) (\<lambda>(alg, after_alg).
     bind_err (der_expect 3 after_alg) (\<lambda>(bits, _).
     bind_err (der_bitstring bits) (\<lambda>k.
     Inr (\<lparr>pub_OBjectIdentifier = alg, PublicKey = k\<rparr>, rest)))))"

definition encoding_ref :: encoding where
  "encoding_ref = \<lparr>pem_Decode = pem_Decode_ref,
     asn1_Unmarshal_PrivKey = asn1_Unmarshal_PrivKey_ref,
     asn1_Unmarshal_PubKey = asn1_Unmarshal_PubKey_ref\<rparr>"

definition pem_text :: "string \<Rightarrow> string \<Rightarrow> bytes" where
  "pem_text typ body =
     bytes_of (''-----BEGIN '' @ typ @ ''-----'' @ [CHR 0x0A] @ body @ [CHR 0x0A]
               @ ''-----END '' @ typ @ ''-----'' @ [CHR 0x0A])"

subsection \<open>A stand-in for the Ed25519 mathematics, and the algorithm value\<close>

definition ed25519_toy :: ed25519 where
  "ed25519_toy =
     \<lparr>public_of_seed = map (\<lambda>b. b + 1),
      sign_raw = (\<lambda>priv msg. take 64 (drop 32 priv @ msg @ replicate 64 0)),
      verify_raw = (\<lambda>pub msg sig. sig = take 64 (pub @ msg @ replicate 64 0))\<rparr>"

text \<open>
  Modelled from the spec: the algorithm value is declared in another file of the package;
  the spec gives its name, "Algorithm name constant: EdDSA".
\<close>

definition EdDSA :: algEdDSA where
  "EdDSA = \<lparr>name = ''EdDSA''\<rparr>"

subsection \<open>Inputs\<close>

text \<open>
  The seed of the spec's fixed vector (bytes 0x00 to 0x1F), its key under \<open>ed25519_toy\<close>,
  and PEM files: the PKCS#8 envelope of that seed; two private-key envelopes whose octet
  string is too short (empty, and three bytes); the public key of RFC 8410, section 10.1;
  two public-key envelopes whose bit string holds one byte and two bytes; and a block whose
  payload stops inside the outer SEQUENCE.
\<close>

definition seed_vector :: bytes where
  "seed_vector = map of_nat [0..<32]"

definition toy_PrivateKey :: bytes where
  "toy_PrivateKey = seed_vector @ map (\<lambda>b. b + 1) seed_vector"

definition pem_seed_vector :: bytes where
  "pem_seed_vector = pem_text ''PRIVATE KEY''
     ''MC4CAQAwBQYDK2VwBCIEIAABAgMEBQYHCAkKCwwNDg8QERITFBUWFxgZGhscHR4f''"

definition pem_empty_octets :: bytes where
  "pem_empty_octets = pem_text ''PRIVATE KEY'' ''MAwCAQAwBQYDK2VwBAA=''"

definition pem_short_octets :: bytes where
  "pem_short_octets = pem_text ''PRIVATE KEY'' ''MA8CAQAwBQYDK2VwBAMEAao=''"

definition pem_public_rfc8410 :: bytes where
  "pem_public_rfc8410 = pem_text ''PUBLIC KEY''
     ''MCowBQYDK2VwAyEAGb9ECWmEzf6FQbrBZ9w7lshQhqowtrbLDFw4rXAxZuE=''"

definition pem_public_one_byte :: bytes where
  "pem_public_one_byte = pem_text ''PUBLIC KEY'' ''MAswBQYDK2VwAwIAAQ==''"

definition pem_public_two_bytes :: bytes where
  "pem_public_two_bytes = pem_text ''PUBLIC KEY'' ''MAwwBQYDK2VwAwMAq80=''"

definition pem_truncated_der :: bytes where
  "pem_truncated_der = pem_text ''PRIVATE KEY'' ''MAwC''"

section \<open>Predicates used in the statements\<close>

definition valid_PrivateKey :: "ed25519 \<Rightarrow> bytes \<Rightarrow> bool" where
  \<comment> \<open>a private key as the library generates it: the key of its own seed\<close>
  "valid_PrivateKey E k \<longleftrightarrow> ed25519_NewKeyFromSeed E (take SeedSize k) = Returns k"

definition ed25519_correct :: "ed25519 \<Rightarrow> bool" where
  \<comment> \<open>the contract of crypto/ed25519: a signature made with the key of a seed verifies
      under the public key of that key\<close>
  "ed25519_correct E \<longleftrightarrow>
     (\<forall>seed message. length seed = SeedSize \<longrightarrow>
        (\<exists>k sig pk. ed25519_NewKeyFromSeed E seed = Returns k
           \<and> ed25519_Sign E k message = Returns sig
           \<and> PrivateKey_Public k = Returns pk
           \<and> ed25519_Verify E pk message sig = Returns True))"

section \<open>Lemmas on the library layer\<close>

lemma length_make_bytes [simp]: "length (make_bytes n) = n"
  by (simp add: make_bytes_def)

lemma length_copy [simp]: "length (copy dst src) = length dst"
  by (simp add: copy_def)

lemma copy_same_length: "length src = length dst \<Longrightarrow> copy dst src = src"
  by (simp add: copy_def)

lemma PrivateKey_Public_64:
  "length priv = 64 \<Longrightarrow> PrivateKey_Public priv = Returns (drop 32 priv)"
  by (simp add: PrivateKey_Public_def slice_from_def copy_same_length PublicKeySize_def)

lemma ed25519_Sign_length:
  "ed25519_Sign E k m = Returns sig \<Longrightarrow> length sig = 64"
  by (auto simp: ed25519_Sign_def SignatureSize_def split: if_splits)

lemma Sign_private_key:
  "Sign a E (Ed25519PrivateKey k) m =
     (if length k \<noteq> 64 then Returns (Inl ErrInvalidKey)
      else Returns (Inr (copy (make_bytes 64) (sign_raw E k m))))"
  by (simp add: ed25519_Sign_def PrivateKeySize_def SignatureSize_def)

lemma Verify_public_key:
  "Verify a E (Ed25519PublicKey pk) m s =
     Returns (if length pk \<noteq> 32 then Some ErrInvalidKey
              else if verify_raw E pk m s then None else Some ErrTokenSignature)"
  by (simp add: Verify_publicKey_def ed25519_Verify_def PublicKeySize_def)

lemma Verify_other_key:
  "Verify a E (ByteSlice b) m s = Returns (Some ErrInvalidKey)"
  "Verify a E OtherValue m s = Returns (Some ErrInvalidKey)"
  by simp_all

lemma valid_PrivateKey_length:
  assumes "valid_PrivateKey E k"
  shows "length k = 64" and "length (take SeedSize k) = SeedSize"
proof -
  from assms have *: "ed25519_NewKeyFromSeed E (take SeedSize k) = Returns k"
    by (simp add: valid_PrivateKey_def)
  then show seed: "length (take SeedSize k) = SeedSize"
    by (auto simp: ed25519_NewKeyFromSeed_def split: if_splits)
  from * seed have "k = copy (make_bytes SeedSize) (take SeedSize k)
      @ copy (make_bytes PublicKeySize) (public_of_seed E (take SeedSize k))"
    by (simp add: ed25519_NewKeyFromSeed_def split: if_splits)
  then have "length k = SeedSize + PublicKeySize"
    by (metis length_append length_copy length_make_bytes)
  then show "length k = 64" by (simp add: SeedSize_def PublicKeySize_def)
qed

lemma ed25519_NewKeyFromSeed_length:
  "ed25519_NewKeyFromSeed E seed = Returns k \<Longrightarrow> length k = 64 \<and> take 32 k = seed"
  by (auto simp: ed25519_NewKeyFromSeed_def SeedSize_def PublicKeySize_def copy_same_length
      split: if_splits)

subsection \<open>The stand-in primitive meets the library's contract\<close>

lemma length_seed_vector: "length seed_vector = 32"
  by (simp add: seed_vector_def)

lemma length_toy_PrivateKey: "length toy_PrivateKey = 64"
  by (simp add: toy_PrivateKey_def length_seed_vector)

lemma NewKeyFromSeed_toy:
  "length seed = 32 \<Longrightarrow>
     ed25519_NewKeyFromSeed ed25519_toy seed = Returns (seed @ map (\<lambda>b. b + 1) seed)"
  by (simp add: ed25519_NewKeyFromSeed_def ed25519_toy_def SeedSize_def PublicKeySize_def
      copy_same_length)

lemma NewKeyFromSeed_toy_seed_vector:
  "ed25519_NewKeyFromSeed ed25519_toy seed_vector = Returns toy_PrivateKey"
  by (simp add: NewKeyFromSeed_toy length_seed_vector toy_PrivateKey_def)

lemma ed25519_toy_correct: "ed25519_correct ed25519_toy"
  unfolding ed25519_correct_def
proof (intro allI impI)
  fix seed message :: bytes
  assume "length seed = SeedSize"
  then have len: "length seed = 32" by (simp add: SeedSize_def)
  let ?pk = "map (\<lambda>b. b + 1) seed"
  let ?k = "seed @ ?pk"
  let ?sig = "take 64 (?pk @ message @ replicate 64 0)"
  have "ed25519_NewKeyFromSeed ed25519_toy seed = Returns ?k"
    using len by (rule NewKeyFromSeed_toy)
  moreover have "ed25519_Sign ed25519_toy ?k message = Returns ?sig"
    using len
    by (simp add: ed25519_Sign_def ed25519_toy_def PrivateKeySize_def SignatureSize_def
        copy_same_length)
  moreover have "PrivateKey_Public ?k = Returns ?pk"
    using len by (simp add: PrivateKey_Public_64)
  moreover have "ed25519_Verify ed25519_toy ?pk message ?sig = Returns True"
    using len by (simp add: ed25519_Verify_def ed25519_toy_def PublicKeySize_def)
  ultimately show "\<exists>k sig pk. ed25519_NewKeyFromSeed ed25519_toy seed = Returns k
      \<and> ed25519_Sign ed25519_toy k message = Returns sig
      \<and> PrivateKey_Public k = Returns pk
      \<and> ed25519_Verify ed25519_toy pk message sig = Returns True"
    by blast
qed

lemma valid_toy_PrivateKey: "valid_PrivateKey ed25519_toy toy_PrivateKey"
  by (simp add: valid_PrivateKey_def toy_PrivateKey_def length_seed_vector SeedSize_def
      NewKeyFromSeed_toy)

section \<open>The algorithm adapter\<close>

text \<open>
  C1. Round trip: for every private key that is the key of its seed, and every message,
  \<open>Sign\<close> returns a signature and no error, and \<open>Verify\<close> on the public key of that
  private key, the message and that signature returns no error. The Ed25519 mathematics is
  a parameter; the theorem holds for every primitive that meets the contract of
  crypto/ed25519 (\<open>ed25519_correct\<close>). What it establishes about eddsa.go is that the two
  length guards let a generated key through, that neither call panics, and that key,
  message and signature reach the primitive unchanged.
\<close>

theorem Sign_Verify_roundtrip:
  assumes correct: "ed25519_correct E" and valid: "valid_PrivateKey E k"
  shows "\<exists>sig pk. Sign a E (Ed25519PrivateKey k) m = Returns (Inr sig)
           \<and> PrivateKey_Public k = Returns pk
           \<and> Verify a E (Ed25519PublicKey pk) m sig = Returns None"
proof -
  have seed: "length (take SeedSize k) = SeedSize" and len: "length k = 64"
    using valid by (rule valid_PrivateKey_length)+
  from correct seed obtain k' sig pk where
    k': "ed25519_NewKeyFromSeed E (take SeedSize k) = Returns k'" and
    sig: "ed25519_Sign E k' m = Returns sig" and
    pk: "PrivateKey_Public k' = Returns pk" and
    ok: "ed25519_Verify E pk m sig = Returns True"
    unfolding ed25519_correct_def by blast
  from k' valid have "k' = k" by (simp add: valid_PrivateKey_def)
  from ok have pk_len: "length pk = PublicKeySize"
    by (auto simp: ed25519_Verify_def split: if_splits)
  have "Sign a E (Ed25519PrivateKey k) m = Returns (Inr sig)"
    using sig len \<open>k' = k\<close> by (simp add: PrivateKeySize_def)
  moreover have "Verify a E (Ed25519PublicKey pk) m sig = Returns None"
    using ok pk_len by (simp add: Verify_publicKey_def)
  ultimately show ?thesis using pk \<open>k' = k\<close> by blast
qed

theorem Sign_Verify_roundtrip_witness:
  "ed25519_correct ed25519_toy \<and> valid_PrivateKey ed25519_toy toy_PrivateKey
   \<and> (\<exists>sig pk. Sign EdDSA ed25519_toy (Ed25519PrivateKey toy_PrivateKey)
                   (bytes_of ''header.payload'') = Returns (Inr sig)
          \<and> PrivateKey_Public toy_PrivateKey = Returns pk
          \<and> Verify EdDSA ed25519_toy (Ed25519PublicKey pk) (bytes_of ''header.payload'') sig
              = Returns None)"
  using Sign_Verify_roundtrip [OF ed25519_toy_correct valid_toy_PrivateKey,
      of EdDSA "bytes_of ''header.payload''"]
    ed25519_toy_correct valid_toy_PrivateKey
  by simp

text \<open>
  C2 (the code departs from it). \<open>Verify\<close> on a value of dynamic type
  \<open>ed25519.PrivateKey\<close> that is 31 bytes long returns neither sentinel: deriving the
  public key slices \<open>priv[32:]\<close> before any length is checked, and the call panics.
\<close>

theorem Verify_short_private_key_panics:
  "Verify a E (Ed25519PrivateKey (replicate 31 0)) m s = Panics (SliceBoundsOutOfRange 32 31)"
  by (simp add: PrivateKey_Public_def slice_from_def)

text \<open>
  A private key that is too long is not rejected either: its bytes 32 to 63 are taken as
  the public key. The length guard of \<open>Verify\<close> sees only the derived 32-byte value.
\<close>

lemma Verify_long_private_key_not_rejected:
  "Verify a E (Ed25519PrivateKey (replicate 65 0)) m s
     = Returns (if verify_raw E (replicate 32 0) m s then None else Some ErrTokenSignature)"
  by (simp add: PrivateKey_Public_def slice_from_def Verify_publicKey_def ed25519_Verify_def
      PublicKeySize_def copy_def make_bytes_def)

text \<open>
  C3. \<open>Sign\<close> returns the invalid-key error when the key is not an Ed25519 private key
  of exactly 64 bytes; otherwise it returns no error and the signature that
  \<open>ed25519.Sign\<close> returns for that key and message, which is 64 bytes long.
\<close>

theorem Sign_invalid_key_or_signature:
  "((\<forall>k. key = Ed25519PrivateKey k \<longrightarrow> length k \<noteq> 64)
      \<longrightarrow> Sign a E key m = Returns (Inl ErrInvalidKey))
   \<and> (\<forall>k. key = Ed25519PrivateKey k \<and> length k = 64
      \<longrightarrow> (\<exists>sig. Sign a E key m = Returns (Inr sig) \<and> length sig = 64
             \<and> ed25519_Sign E k m = Returns sig))"
proof (cases key)
  case (Ed25519PrivateKey k)
  then show ?thesis
    by (simp add: ed25519_Sign_def PrivateKeySize_def SignatureSize_def)
qed simp_all

theorem Sign_invalid_key_or_signature_witness:
  "Sign EdDSA ed25519_toy (ByteSlice toy_PrivateKey) [] = Returns (Inl ErrInvalidKey)
   \<and> Sign EdDSA ed25519_toy (Ed25519PrivateKey (replicate 31 0)) [] = Returns (Inl ErrInvalidKey)
   \<and> Sign EdDSA ed25519_toy (Ed25519PrivateKey (replicate 65 0)) [] = Returns (Inl ErrInvalidKey)
   \<and> (\<exists>sig. Sign EdDSA ed25519_toy (Ed25519PrivateKey toy_PrivateKey) [] = Returns (Inr sig)
          \<and> length sig = 64
          \<and> ed25519_Sign ed25519_toy toy_PrivateKey [] = Returns sig)"
  using Sign_invalid_key_or_signature [of "ByteSlice toy_PrivateKey" EdDSA ed25519_toy "[]"]
    Sign_invalid_key_or_signature [of "Ed25519PrivateKey (replicate 31 0)" EdDSA ed25519_toy "[]"]
    Sign_invalid_key_or_signature [of "Ed25519PrivateKey (replicate 65 0)" EdDSA ed25519_toy "[]"]
    Sign_invalid_key_or_signature [of "Ed25519PrivateKey toy_PrivateKey" EdDSA ed25519_toy "[]"]
    length_toy_PrivateKey
  by simp

text \<open>
  C7. \<open>Verify\<close> takes an Ed25519 public key or an Ed25519 private key. Given a private
  key of 64 bytes it derives the public key (bytes 32 to 63) and returns what \<open>Verify\<close>
  returns on that public key: no error when the signature verifies under it, the
  signature error when it does not, and never the invalid-key error.
\<close>

theorem Verify_private_key_as_public:
  assumes "length k = PrivateKeySize"
  shows "\<exists>pk. PrivateKey_Public k = Returns pk \<and> pk = drop 32 k \<and> length pk = PublicKeySize
           \<and> Verify a E (Ed25519PrivateKey k) m s = Verify a E (Ed25519PublicKey pk) m s
           \<and> Verify a E (Ed25519PublicKey pk) m s
               = Returns (if verify_raw E pk m s then None else Some ErrTokenSignature)"
proof -
  from assms have len: "length k = 64" by (simp add: PrivateKeySize_def)
  then have pub: "PrivateKey_Public k = Returns (drop 32 k)"
    by (rule PrivateKey_Public_64)
  from len have "length (drop 32 k) = 32" by simp
  with pub show ?thesis
    by (simp add: Verify_publicKey_def ed25519_Verify_def PublicKeySize_def)
qed

theorem Verify_private_key_as_public_witness:
  "length toy_PrivateKey = PrivateKeySize
   \<and> (\<exists>pk. PrivateKey_Public toy_PrivateKey = Returns pk \<and> pk = drop 32 toy_PrivateKey
         \<and> length pk = PublicKeySize
         \<and> Verify EdDSA ed25519_toy (Ed25519PrivateKey toy_PrivateKey) [1, 2] (replicate 64 7)
            = Verify EdDSA ed25519_toy (Ed25519PublicKey pk) [1, 2] (replicate 64 7)
         \<and> Verify EdDSA ed25519_toy (Ed25519PublicKey pk) [1, 2] (replicate 64 7)
            = Returns (if verify_raw ed25519_toy pk [1, 2] (replicate 64 7) then None
                       else Some ErrTokenSignature))"
proof -
  have len: "length toy_PrivateKey = PrivateKeySize"
    by (simp add: length_toy_PrivateKey PrivateKeySize_def)
  show ?thesis
    using len Verify_private_key_as_public [OF len, of EdDSA ed25519_toy "[1, 2]" "replicate 64 7"]
    by simp
qed

text \<open>
  The algorithm value is not read by \<open>Sign\<close> or \<open>Verify\<close>. That a second call returns
  the same bytes is not a theorem of this development: \<open>Sign\<close> and the primitive are
  functions here, so it would hold of any definition.
\<close>

lemma Sign_ignores_receiver: "Sign a E key m = Sign a' E key m"
  by (cases key) simp_all

lemma Verify_ignores_receiver: "Verify a E key m s = Verify a' E key m s"
  by (cases key) simp_all

section \<open>The reference decoders on the inputs\<close>

lemmas ref_simps = bytes_of_def pem_text_def pem_Decode_ref_def base64_value_def
  encoding_ref_def bind_err_def der_expect_def der_int_def der_oid_def der_bitstring_def
  der_algorithm_def asn1_Unmarshal_PrivKey_ref_def asn1_Unmarshal_PubKey_ref_def
  char_of_def bit_0

lemma seed_vector_bytes:
  "seed_vector = [0, 1, 2, 3, 4, 5, 6, 7, 8, 9, 10, 11, 12, 13, 14, 15, 16, 17, 18, 19, 20,
     21, 22, 23, 24, 25, 26, 27, 28, 29, 30, 31]"
  by (simp add: seed_vector_def upt_rec)

lemma pem_Decode_seed_vector:
  "pem_Decode encoding_ref pem_seed_vector =
     (Some \<lparr>Block_Type = ''PRIVATE KEY'', Block_Headers = [],
            Block_Bytes = [48, 46, 2, 1, 0, 48, 5, 6, 3, 43, 101, 112, 4, 34, 4, 32]
              @ seed_vector\<rparr>, [])"
  by (simp add: pem_seed_vector_def seed_vector_bytes ref_simps)

lemma Unmarshal_seed_vector:
  "asn1_Unmarshal_PrivKey encoding_ref
     ([48, 46, 2, 1, 0, 48, 5, 6, 3, 43, 101, 112, 4, 34, 4, 32] @ seed_vector) =
     Inr (\<lparr>Version = 0, priv_ObjectIdentifier = \<lparr>ObjectIdentifier = [1, 3, 101, 112]\<rparr>,
           PrivateKey = [4, 32] @ seed_vector\<rparr>, [])"
  by (simp add: seed_vector_bytes ref_simps)

lemma pem_Decode_empty_octets:
  "pem_Decode encoding_ref pem_empty_octets =
     (Some \<lparr>Block_Type = ''PRIVATE KEY'', Block_Headers = [],
            Block_Bytes = [48, 12, 2, 1, 0, 48, 5, 6, 3, 43, 101, 112, 4, 0]\<rparr>, [])"
  by (simp add: pem_empty_octets_def ref_simps)

lemma Unmarshal_empty_octets:
  "asn1_Unmarshal_PrivKey encoding_ref [48, 12, 2, 1, 0, 48, 5, 6, 3, 43, 101, 112, 4, 0] =
     Inr (\<lparr>Version = 0, priv_ObjectIdentifier = \<lparr>ObjectIdentifier = [1, 3, 101, 112]\<rparr>,
           PrivateKey = []\<rparr>, [])"
  by (simp add: ref_simps)

lemma pem_Decode_short_octets:
  "pem_Decode encoding_ref pem_short_octets =
     (Some \<lparr>Block_Type = ''PRIVATE KEY'', Block_Headers = [],
            Block_Bytes = [48, 15, 2, 1, 0, 48, 5, 6, 3, 43, 101, 112, 4, 3, 4, 1, 170]\<rparr>, [])"
  by (simp add: pem_short_octets_def ref_simps)

lemma Unmarshal_short_octets:
  "asn1_Unmarshal_PrivKey encoding_ref
     [48, 15, 2, 1, 0, 48, 5, 6, 3, 43, 101, 112, 4, 3, 4, 1, 170] =
     Inr (\<lparr>Version = 0, priv_ObjectIdentifier = \<lparr>ObjectIdentifier = [1, 3, 101, 112]\<rparr>,
           PrivateKey = [4, 1, 170]\<rparr>, [])"
  by (simp add: ref_simps)

lemma pem_Decode_public_rfc8410:
  "pem_Decode encoding_ref pem_public_rfc8410 =
     (Some \<lparr>Block_Type = ''PUBLIC KEY'', Block_Headers = [],
            Block_Bytes = [48, 42, 48, 5, 6, 3, 43, 101, 112, 3, 33, 0,
              25, 191, 68, 9, 105, 132, 205, 254, 133, 65, 186, 193, 103, 220, 59, 150,
              200, 80, 134, 170, 48, 182, 182, 203, 12, 92, 56, 173, 112, 49, 102, 225]\<rparr>, [])"
  by (simp add: pem_public_rfc8410_def ref_simps)

lemma Unmarshal_public_rfc8410:
  "asn1_Unmarshal_PubKey encoding_ref
     [48, 42, 48, 5, 6, 3, 43, 101, 112, 3, 33, 0,
      25, 191, 68, 9, 105, 132, 205, 254, 133, 65, 186, 193, 103, 220, 59, 150,
      200, 80, 134, 170, 48, 182, 182, 203, 12, 92, 56, 173, 112, 49, 102, 225] =
     Inr (\<lparr>pub_OBjectIdentifier = \<lparr>ObjectIdentifier = [1, 3, 101, 112]\<rparr>,
           PublicKey = \<lparr>BitString_Bytes =
             [25, 191, 68, 9, 105, 132, 205, 254, 133, 65, 186, 193, 103, 220, 59, 150,
              200, 80, 134, 170, 48, 182, 182, 203, 12, 92, 56, 173, 112, 49, 102, 225],
             BitLength = 256\<rparr>\<rparr>, [])"
  by (simp add: ref_simps)

lemma pem_Decode_public_one_byte:
  "pem_Decode encoding_ref pem_public_one_byte =
     (Some \<lparr>Block_Type = ''PUBLIC KEY'', Block_Headers = [],
            Block_Bytes = [48, 11, 48, 5, 6, 3, 43, 101, 112, 3, 2, 0, 1]\<rparr>, [])"
  by (simp add: pem_public_one_byte_def ref_simps)

lemma Unmarshal_public_one_byte:
  "asn1_Unmarshal_PubKey encoding_ref [48, 11, 48, 5, 6, 3, 43, 101, 112, 3, 2, 0, 1] =
     Inr (\<lparr>pub_OBjectIdentifier = \<lparr>ObjectIdentifier = [1, 3, 101, 112]\<rparr>,
           PublicKey = \<lparr>BitString_Bytes = [1], BitLength = 8\<rparr>\<rparr>, [])"
  by (simp add: ref_simps)

lemma pem_Decode_public_two_bytes:
  "pem_Decode encoding_ref pem_public_two_bytes =
     (Some \<lparr>Block_Type = ''PUBLIC KEY'', Block_Headers = [],
            Block_Bytes = [48, 12, 48, 5, 6, 3, 43, 101, 112, 3, 3, 0, 171, 205]\<rparr>, [])"
  by (simp add: pem_public_two_bytes_def ref_simps)

lemma Unmarshal_public_two_bytes:
  "asn1_Unmarshal_PubKey encoding_ref [48, 12, 48, 5, 6, 3, 43, 101, 112, 3, 3, 0, 171, 205] =
     Inr (\<lparr>pub_OBjectIdentifier = \<lparr>ObjectIdentifier = [1, 3, 101, 112]\<rparr>,
           PublicKey = \<lparr>BitString_Bytes = [171, 205], BitLength = 16\<rparr>\<rparr>, [])"
  by (simp add: ref_simps)

lemma pem_Decode_truncated_der:
  "pem_Decode encoding_ref pem_truncated_der =
     (Some \<lparr>Block_Type = ''PRIVATE KEY'', Block_Headers = [], Block_Bytes = [48, 12, 2]\<rparr>, [])"
  by (simp add: pem_truncated_der_def ref_simps)

lemma Unmarshal_truncated_der:
  "asn1_Unmarshal_PrivKey encoding_ref [48, 12, 2] = Inl (SyntaxError ''data truncated'')"
  "asn1_Unmarshal_PubKey encoding_ref [48, 12, 2] = Inl (SyntaxError ''data truncated'')"
  by (simp_all add: ref_simps)

lemma pem_Decode_no_block:
  "pem_Decode encoding_ref [] = (None, [])"
  "pem_Decode encoding_ref (bytes_of ''not a PEM file'') = (None, bytes_of ''not a PEM file'')"
  by (simp_all add: ref_simps)

section \<open>The key parsers\<close>

lemma ParsePrivateKeyEdDSA_decoded:
  assumes "fst (pem_Decode D key) = Some block"
    and "asn1_Unmarshal_PrivKey D (Block_Bytes block) = Inr (s, rest)"
  shows "ParsePrivateKeyEdDSA D E key =
     (if length (PrivateKey s) < 2 then Panics (SliceBoundsOutOfRange 2 (length (PrivateKey s)))
      else if length (PrivateKey s) \<noteq> 34 then Panics (BadSeedLength (length (PrivateKey s) - 2))
      else Returns (Inr (drop 2 (PrivateKey s)
             @ copy (make_bytes 32) (public_of_seed E (drop 2 (PrivateKey s))))))"
  using assms
  by (auto simp: ParsePrivateKeyEdDSA_def slice_from_def ed25519_NewKeyFromSeed_def
      SeedSize_def PublicKeySize_def copy_same_length)

lemma ParsePublicKeyEdDSA_decoded:
  assumes "fst (pem_Decode D key) = Some block"
    and "asn1_Unmarshal_PubKey D (Block_Bytes block) = Inr (s, rest)"
  shows "ParsePublicKeyEdDSA D key = Returns (Inr (BitString_Bytes (PublicKey s)))"
  using assms by (simp add: ParsePublicKeyEdDSA_def)

text \<open>
  The public key of RFC 8410 parses to its 32 bytes.
\<close>

lemma ParsePublicKeyEdDSA_rfc8410:
  "ParsePublicKeyEdDSA encoding_ref pem_public_rfc8410 =
     Returns (Inr [25, 191, 68, 9, 105, 132, 205, 254, 133, 65, 186, 193, 103, 220, 59, 150,
                   200, 80, 134, 170, 48, 182, 182, 203, 12, 92, 56, 173, 112, 49, 102, 225])"
  by (simp add: ParsePublicKeyEdDSA_def pem_Decode_public_rfc8410 Unmarshal_public_rfc8410)

text \<open>\<open>ParsePublicKeyEdDSA\<close> returns on every input, whatever the decoders answer.\<close>

lemma ParsePublicKeyEdDSA_total: "\<exists>r. ParsePublicKeyEdDSA D key = Returns r"
  by (simp add: ParsePublicKeyEdDSA_def split: option.split sum.split prod.split)

text \<open>
  C4 (the code departs from it). \<open>ParsePrivateKeyEdDSA\<close> is not total. The input
  \<open>pem_empty_octets\<close> is a PEM block whose payload is a DER private-key envelope with an
  empty octet string. It decodes and unmarshals without error; then
  \<open>asn1PrivKey.PrivateKey[2:]\<close> slices past the end and the call panics.
\<close>

theorem ParsePrivateKeyEdDSA_panics_on_empty_octet_string:
  "ParsePrivateKeyEdDSA encoding_ref E pem_empty_octets = Panics (SliceBoundsOutOfRange 2 0)"
  by (simp add: ParsePrivateKeyEdDSA_def pem_Decode_empty_octets Unmarshal_empty_octets
      slice_from_def)

text \<open>
  C5, as stated, fails: \<open>pem_short_octets\<close> decodes and unmarshals without error, its
  octet string has three bytes, and no key is returned: the one byte left after the skip
  is not a seed, and \<open>ed25519.NewKeyFromSeed\<close> panics.
\<close>

theorem ParsePrivateKeyEdDSA_short_octet_string_counterexample:
  "pem_Decode encoding_ref pem_short_octets =
     (Some \<lparr>Block_Type = ''PRIVATE KEY'', Block_Headers = [],
            Block_Bytes = [48, 15, 2, 1, 0, 48, 5, 6, 3, 43, 101, 112, 4, 3, 4, 1, 170]\<rparr>, [])
   \<and> asn1_Unmarshal_PrivKey encoding_ref
        [48, 15, 2, 1, 0, 48, 5, 6, 3, 43, 101, 112, 4, 3, 4, 1, 170] =
      Inr (\<lparr>Version = 0, priv_ObjectIdentifier = \<lparr>ObjectIdentifier = [1, 3, 101, 112]\<rparr>,
            PrivateKey = [4, 1, 170]\<rparr>, [])
   \<and> ParsePrivateKeyEdDSA encoding_ref ed25519_toy pem_short_octets = Panics (BadSeedLength 1)"
  by (simp add: ParsePrivateKeyEdDSA_def pem_Decode_short_octets Unmarshal_short_octets
      slice_from_def ed25519_NewKeyFromSeed_def SeedSize_def)

text \<open>
  C5, amended. For every input that PEM-decodes and ASN.1-unmarshals without error and
  whose private-key octet string is exactly 34 bytes long, \<open>ParsePrivateKeyEdDSA\<close> skips
  the first 2 bytes of the octet string, takes the remaining 32 bytes as the seed, and
  returns, with no error, the 64-byte private key that \<open>ed25519.NewKeyFromSeed\<close> derives
  from that seed. (The two skipped bytes are not inspected.)
\<close>

theorem ParsePrivateKeyEdDSA_seed:
  assumes "fst (pem_Decode D key) = Some block"
    and "asn1_Unmarshal_PrivKey D (Block_Bytes block) = Inr (s, rest)"
    and "length (PrivateKey s) = 34"
  shows "\<exists>privateKey. ed25519_NewKeyFromSeed E (drop 2 (PrivateKey s)) = Returns privateKey
           \<and> ParsePrivateKeyEdDSA D E key = Returns (Inr privateKey)
           \<and> length (drop 2 (PrivateKey s)) = 32
           \<and> length privateKey = 64
           \<and> take 32 privateKey = drop 2 (PrivateKey s)"
  using assms
  by (simp add: ParsePrivateKeyEdDSA_def slice_from_def ed25519_NewKeyFromSeed_def
      SeedSize_def PublicKeySize_def copy_same_length)

text \<open>
  The fixed vector of the spec: the envelope of the seed 0x00 to 0x1F parses to the key
  that \<open>NewKeyFromSeed\<close> derives from that seed.
\<close>

theorem ParsePrivateKeyEdDSA_seed_witness:
  "fst (pem_Decode encoding_ref pem_seed_vector) =
     Some \<lparr>Block_Type = ''PRIVATE KEY'', Block_Headers = [],
           Block_Bytes = [48, 46, 2, 1, 0, 48, 5, 6, 3, 43, 101, 112, 4, 34, 4, 32]
             @ seed_vector\<rparr>
   \<and> asn1_Unmarshal_PrivKey encoding_ref
        ([48, 46, 2, 1, 0, 48, 5, 6, 3, 43, 101, 112, 4, 34, 4, 32] @ seed_vector) =
      Inr (\<lparr>Version = 0, priv_ObjectIdentifier = \<lparr>ObjectIdentifier = [1, 3, 101, 112]\<rparr>,
            PrivateKey = [4, 32] @ seed_vector\<rparr>, [])
   \<and> length ([4, 32] @ seed_vector) = 34
   \<and> ed25519_NewKeyFromSeed ed25519_toy seed_vector = Returns toy_PrivateKey
   \<and> ParsePrivateKeyEdDSA encoding_ref ed25519_toy pem_seed_vector = Returns (Inr toy_PrivateKey)
   \<and> length toy_PrivateKey = 64
   \<and> take 32 toy_PrivateKey = seed_vector"
proof -
  let ?block = "\<lparr>Block_Type = ''PRIVATE KEY'', Block_Headers = [],
     Block_Bytes = [48, 46, 2, 1, 0, 48, 5, 6, 3, 43, 101, 112, 4, 34, 4, 32] @ seed_vector\<rparr>"
  let ?s = "\<lparr>Version = 0, priv_ObjectIdentifier = \<lparr>ObjectIdentifier = [1, 3, 101, 112]\<rparr>,
     PrivateKey = [4, 32] @ seed_vector\<rparr>"
  have pem: "fst (pem_Decode encoding_ref pem_seed_vector) = Some ?block"
    by (simp add: pem_Decode_seed_vector)
  have der: "asn1_Unmarshal_PrivKey encoding_ref (Block_Bytes ?block) = Inr (?s, [])"
    using Unmarshal_seed_vector by simp
  have len: "length (PrivateKey ?s) = 34"
    by (simp add: length_seed_vector)
  show ?thesis
    using ParsePrivateKeyEdDSA_seed [OF pem der len, of ed25519_toy]
      pem der len NewKeyFromSeed_toy_seed_vector
    by simp
qed

text \<open>
  C6, as stated, fails: \<open>ParsePublicKeyEdDSA\<close> returns a public key of one byte, and no
  error, for \<open>pem_public_one_byte\<close>.
\<close>

theorem ParsePublicKeyEdDSA_wrong_length_counterexample:
  "ParsePublicKeyEdDSA encoding_ref pem_public_one_byte = Returns (Inr [1])
   \<and> length [1 :: byte] \<noteq> PublicKeySize"
  by (simp add: ParsePublicKeyEdDSA_def pem_Decode_public_one_byte Unmarshal_public_one_byte
      PublicKeySize_def)

text \<open>
  C6, amended. The length of a key is checked where the key is used, not where it is
  parsed. \<open>Sign\<close> rejects every Ed25519 private key whose length is not 64, and \<open>Verify\<close>
  rejects every Ed25519 public key whose length is not 32, both with the invalid-key
  error. \<open>ParsePrivateKeyEdDSA\<close> never returns a key whose length is not 64.
  \<open>ParsePublicKeyEdDSA\<close> checks no length: whenever the input decodes to a block and
  the block unmarshals, it returns the content of the bit string, unchanged and with no
  error, whatever the number of its bytes; and a key it returns is always that content.
\<close>

theorem key_length_checks:
  "(length k \<noteq> PrivateKeySize
      \<longrightarrow> Sign a E (Ed25519PrivateKey k) m = Returns (Inl ErrInvalidKey))
   \<and> (length pk \<noteq> PublicKeySize
      \<longrightarrow> Verify a E (Ed25519PublicKey pk) m sg = Returns (Some ErrInvalidKey))
   \<and> (\<forall>k'. ParsePrivateKeyEdDSA D E key = Returns (Inr k') \<longrightarrow> length k' = PrivateKeySize)
   \<and> (\<forall>block s rest. fst (pem_Decode D key) = Some block
         \<and> asn1_Unmarshal_PubKey D (Block_Bytes block) = Inr (s, rest)
      \<longrightarrow> ParsePublicKeyEdDSA D key = Returns (Inr (BitString_Bytes (PublicKey s))))
   \<and> (\<forall>pk'. ParsePublicKeyEdDSA D key = Returns (Inr pk')
      \<longrightarrow> (\<exists>block s rest. fst (pem_Decode D key) = Some block
             \<and> asn1_Unmarshal_PubKey D (Block_Bytes block) = Inr (s, rest)
             \<and> pk' = BitString_Bytes (PublicKey s)))"
proof (intro conjI allI impI)
  assume "length k \<noteq> PrivateKeySize"
  then show "Sign a E (Ed25519PrivateKey k) m = Returns (Inl ErrInvalidKey)"
    by simp
next
  assume "length pk \<noteq> PublicKeySize"
  then show "Verify a E (Ed25519PublicKey pk) m sg = Returns (Some ErrInvalidKey)"
    by (simp add: Verify_publicKey_def)
next
  fix k'
  assume "ParsePrivateKeyEdDSA D E key = Returns (Inr k')"
  then obtain seed where "ed25519_NewKeyFromSeed E seed = Returns k'"
    by (auto simp: ParsePrivateKeyEdDSA_def
        split: option.splits sum.splits prod.splits go.splits)
  then show "length k' = PrivateKeySize"
    by (simp add: ed25519_NewKeyFromSeed_length PrivateKeySize_def)
next
  fix block s rest
  assume "fst (pem_Decode D key) = Some block
    \<and> asn1_Unmarshal_PubKey D (Block_Bytes block) = Inr (s, rest)"
  then show "ParsePublicKeyEdDSA D key = Returns (Inr (BitString_Bytes (PublicKey s)))"
    by (simp add: ParsePublicKeyEdDSA_decoded)
next
  fix pk'
  assume "ParsePublicKeyEdDSA D key = Returns (Inr pk')"
  then show "\<exists>block s rest. fst (pem_Decode D key) = Some block
      \<and> asn1_Unmarshal_PubKey D (Block_Bytes block) = Inr (s, rest)
      \<and> pk' = BitString_Bytes (PublicKey s)"
    by (auto simp: ParsePublicKeyEdDSA_def split: option.splits sum.splits prod.splits)
qed

theorem key_length_checks_witness:
  "length (replicate 65 (0 :: byte)) \<noteq> PrivateKeySize
   \<and> Sign EdDSA ed25519_toy (Ed25519PrivateKey (replicate 65 0)) [] = Returns (Inl ErrInvalidKey)
   \<and> length [1 :: byte] \<noteq> PublicKeySize
   \<and> Verify EdDSA ed25519_toy (Ed25519PublicKey [1]) [] [] = Returns (Some ErrInvalidKey)
   \<and> ParsePrivateKeyEdDSA encoding_ref ed25519_toy pem_seed_vector = Returns (Inr toy_PrivateKey)
   \<and> length toy_PrivateKey = PrivateKeySize
   \<and> fst (pem_Decode encoding_ref pem_public_one_byte) =
       Some \<lparr>Block_Type = ''PUBLIC KEY'', Block_Headers = [],
             Block_Bytes = [48, 11, 48, 5, 6, 3, 43, 101, 112, 3, 2, 0, 1]\<rparr>
   \<and> asn1_Unmarshal_PubKey encoding_ref [48, 11, 48, 5, 6, 3, 43, 101, 112, 3, 2, 0, 1] =
       Inr (\<lparr>pub_OBjectIdentifier = \<lparr>ObjectIdentifier = [1, 3, 101, 112]\<rparr>,
             PublicKey = \<lparr>BitString_Bytes = [1], BitLength = 8\<rparr>\<rparr>, [])
   \<and> ParsePublicKeyEdDSA encoding_ref pem_public_one_byte = Returns (Inr [1])
   \<and> (\<exists>block s rest. fst (pem_Decode encoding_ref pem_public_one_byte) = Some block
         \<and> asn1_Unmarshal_PubKey encoding_ref (Block_Bytes block) = Inr (s, rest)
         \<and> [1] = BitString_Bytes (PublicKey s))"
proof -
  let ?block = "\<lparr>Block_Type = ''PUBLIC KEY'', Block_Headers = [],
     Block_Bytes = [48, 11, 48, 5, 6, 3, 43, 101, 112, 3, 2, 0, 1]\<rparr>"
  let ?s = "\<lparr>pub_OBjectIdentifier = \<lparr>ObjectIdentifier = [1, 3, 101, 112]\<rparr>,
     PublicKey = \<lparr>BitString_Bytes = [1], BitLength = 8\<rparr>\<rparr>"
  note at_private = key_length_checks [of "replicate 65 0" EdDSA ed25519_toy "[]" "[1]" "[]"
      encoding_ref pem_seed_vector]
  note at_public = key_length_checks [of "replicate 65 0" EdDSA ed25519_toy "[]" "[1]" "[]"
      encoding_ref pem_public_one_byte]
  have priv: "ParsePrivateKeyEdDSA encoding_ref ed25519_toy pem_seed_vector
      = Returns (Inr toy_PrivateKey)"
    by (simp add: ParsePrivateKeyEdDSA_def pem_Decode_seed_vector
        Unmarshal_seed_vector [simplified] slice_from_def NewKeyFromSeed_toy_seed_vector)
  have pem: "fst (pem_Decode encoding_ref pem_public_one_byte) = Some ?block"
    by (simp add: pem_Decode_public_one_byte)
  have der: "asn1_Unmarshal_PubKey encoding_ref (Block_Bytes ?block) = Inr (?s, [])"
    using Unmarshal_public_one_byte by simp
  from at_public have forward: "fst (pem_Decode encoding_ref pem_public_one_byte) = Some ?block
      \<and> asn1_Unmarshal_PubKey encoding_ref (Block_Bytes ?block) = Inr (?s, [])
    \<longrightarrow> ParsePublicKeyEdDSA encoding_ref pem_public_one_byte
        = Returns (Inr (BitString_Bytes (PublicKey ?s)))"
    by blast
  with pem der have pub: "ParsePublicKeyEdDSA encoding_ref pem_public_one_byte = Returns (Inr [1])"
    by simp
  show ?thesis
    using at_private at_public priv pub pem der Unmarshal_public_one_byte
    by (simp add: PrivateKeySize_def PublicKeySize_def)
qed

text \<open>
  C8. When \<open>pem.Decode\<close> finds no block, both parsers return the error whose message is
  "malformed or missing PEM format (EdDSA)" after the kind of key. When a block is found
  and \<open>asn1.Unmarshal\<close> returns an error, both parsers return that error, unchanged.
\<close>

theorem Parse_error_paths:
  "(fst (pem_Decode D key) = None
      \<longrightarrow> ParsePrivateKeyEdDSA D E key
            = Returns (Inl (Errorf ''private key: malformed or missing PEM format (EdDSA)''))
          \<and> ParsePublicKeyEdDSA D key
            = Returns (Inl (Errorf ''public key: malformed or missing PEM format (EdDSA)'')))
   \<and> (\<forall>block err. fst (pem_Decode D key) = Some block
      \<longrightarrow> (asn1_Unmarshal_PrivKey D (Block_Bytes block) = Inl err
             \<longrightarrow> ParsePrivateKeyEdDSA D E key = Returns (Inl err))
          \<and> (asn1_Unmarshal_PubKey D (Block_Bytes block) = Inl err
             \<longrightarrow> ParsePublicKeyEdDSA D key = Returns (Inl err)))"
  by (simp add: ParsePrivateKeyEdDSA_def ParsePublicKeyEdDSA_def)

theorem Parse_error_paths_witness:
  "fst (pem_Decode encoding_ref []) = None
   \<and> ParsePrivateKeyEdDSA encoding_ref ed25519_toy []
       = Returns (Inl (Errorf ''private key: malformed or missing PEM format (EdDSA)''))
   \<and> ParsePublicKeyEdDSA encoding_ref []
       = Returns (Inl (Errorf ''public key: malformed or missing PEM format (EdDSA)''))
   \<and> fst (pem_Decode encoding_ref (bytes_of ''not a PEM file'')) = None
   \<and> ParsePrivateKeyEdDSA encoding_ref ed25519_toy (bytes_of ''not a PEM file'')
       = Returns (Inl (Errorf ''private key: malformed or missing PEM format (EdDSA)''))
   \<and> ParsePublicKeyEdDSA encoding_ref (bytes_of ''not a PEM file'')
       = Returns (Inl (Errorf ''public key: malformed or missing PEM format (EdDSA)''))
   \<and> fst (pem_Decode encoding_ref pem_truncated_der)
       = Some \<lparr>Block_Type = ''PRIVATE KEY'', Block_Headers = [], Block_Bytes = [48, 12, 2]\<rparr>
   \<and> asn1_Unmarshal_PrivKey encoding_ref [48, 12, 2] = Inl (SyntaxError ''data truncated'')
   \<and> asn1_Unmarshal_PubKey encoding_ref [48, 12, 2] = Inl (SyntaxError ''data truncated'')
   \<and> ParsePrivateKeyEdDSA encoding_ref ed25519_toy pem_truncated_der
       = Returns (Inl (SyntaxError ''data truncated''))
   \<and> ParsePublicKeyEdDSA encoding_ref pem_truncated_der
       = Returns (Inl (SyntaxError ''data truncated''))"
  using Parse_error_paths [of encoding_ref "[]" ed25519_toy]
    Parse_error_paths [of encoding_ref "bytes_of ''not a PEM file''" ed25519_toy]
    Parse_error_paths [of encoding_ref pem_truncated_der ed25519_toy]
    pem_Decode_no_block pem_Decode_truncated_der Unmarshal_truncated_der
  by simp

text \<open>
  C10. \<open>ParsePublicKeyEdDSA\<close> checks no length. Whenever the input decodes to a block
  and the block unmarshals, it returns the bytes of the bit string as the public key,
  with no error, whatever their number; when that number is not 32, it is a later
  \<open>Verify\<close> with the key that fails, with the invalid-key error. The witness is a
  well-formed PEM file whose bit string holds two bytes.
\<close>

theorem ParsePublicKeyEdDSA_no_length_check:
  assumes "fst (pem_Decode D key) = Some block"
    and "asn1_Unmarshal_PubKey D (Block_Bytes block) = Inr (s, rest)"
  shows "ParsePublicKeyEdDSA D key = Returns (Inr (BitString_Bytes (PublicKey s)))
         \<and> (length (BitString_Bytes (PublicKey s)) \<noteq> 32
            \<longrightarrow> Verify a E (Ed25519PublicKey (BitString_Bytes (PublicKey s))) m sg
                  = Returns (Some ErrInvalidKey))"
  using assms
  by (simp add: ParsePublicKeyEdDSA_def Verify_publicKey_def PublicKeySize_def)

theorem ParsePublicKeyEdDSA_no_length_check_witness:
  "fst (pem_Decode encoding_ref pem_public_two_bytes) =
     Some \<lparr>Block_Type = ''PUBLIC KEY'', Block_Headers = [],
           Block_Bytes = [48, 12, 48, 5, 6, 3, 43, 101, 112, 3, 3, 0, 171, 205]\<rparr>
   \<and> asn1_Unmarshal_PubKey encoding_ref [48, 12, 48, 5, 6, 3, 43, 101, 112, 3, 3, 0, 171, 205] =
      Inr (\<lparr>pub_OBjectIdentifier = \<lparr>ObjectIdentifier = [1, 3, 101, 112]\<rparr>,
            PublicKey = \<lparr>BitString_Bytes = [171, 205], BitLength = 16\<rparr>\<rparr>, [])
   \<and> ParsePublicKeyEdDSA encoding_ref pem_public_two_bytes = Returns (Inr [171, 205])
   \<and> length [171, 205 :: byte] \<noteq> 32
   \<and> Verify EdDSA ed25519_toy (Ed25519PublicKey [171, 205]) [] (replicate 64 0)
       = Returns (Some ErrInvalidKey)"
proof -
  let ?block = "\<lparr>Block_Type = ''PUBLIC KEY'', Block_Headers = [],
     Block_Bytes = [48, 12, 48, 5, 6, 3, 43, 101, 112, 3, 3, 0, 171, 205]\<rparr>"
  let ?s = "\<lparr>pub_OBjectIdentifier = \<lparr>ObjectIdentifier = [1, 3, 101, 112]\<rparr>,
     PublicKey = \<lparr>BitString_Bytes = [171, 205], BitLength = 16\<rparr>\<rparr>"
  have pem: "fst (pem_Decode encoding_ref pem_public_two_bytes) = Some ?block"
    by (simp add: pem_Decode_public_two_bytes)
  have der: "asn1_Unmarshal_PubKey encoding_ref (Block_Bytes ?block) = Inr (?s, [])"
    using Unmarshal_public_two_bytes by simp
  show ?thesis
    using ParsePublicKeyEdDSA_no_length_check [OF pem der, of EdDSA ed25519_toy "[]" "replicate 64 0"]
      pem der Unmarshal_public_two_bytes
    by simp
qed

end
